theory Spec2Isabelle
  imports Main "HOL-Library.AList"
begin

section \<open>Data model (src/types/index.ts)\<close>

text \<open>
  Strings are modelled as lists of 8-bit characters. The case conversions and the
  whitespace class of the regular expressions below are the ASCII ones.
\<close>

datatype database = Postgresql | Mysql | Sqlite | Mongodb

fun databaseName :: "database \<Rightarrow> string" where
  "databaseName Postgresql = ''postgresql''"
| "databaseName Mysql = ''mysql''"
| "databaseName Sqlite = ''sqlite''"
| "databaseName Mongodb = ''mongodb''"

record ProjectConfig =
  name :: string
  description :: string
  author :: string
  version :: string
  license :: string
  typescript :: bool
  database :: database
  authentication :: bool
  swagger :: bool
  testing :: bool
  docker :: bool
  redis :: bool
  websockets :: bool
  backgroundJobs :: bool
  cors :: bool
  rateLimit :: bool
  monitoring :: bool
  features :: "string list"

text \<open>
  A \<open>TemplateContext\<close> is a JavaScript object: a finite map from property names to
  values. The values that \<open>generateProject\<close> stores are booleans, strings and one
  array of strings (\<open>features\<close>). A missing property reads as \<open>undefined\<close> (\<open>None\<close>).
\<close>

datatype ctx_value = VBool bool | VStr string | VList "string list"

type_synonym TemplateContext = "string \<Rightarrow> ctx_value option"

text \<open>JavaScript truthiness of a property read (\<open>if (context.typescript)\<close>).\<close>

fun truthy :: "ctx_value option \<Rightarrow> bool" where
  "truthy None = False"
| "truthy (Some (VBool b)) = b"
| "truthy (Some (VStr s)) = (s \<noteq> [])"
| "truthy (Some (VList xs)) = True"

section \<open>String helpers of the JavaScript runtime\<close>

definition startsWith :: "string \<Rightarrow> string \<Rightarrow> bool" where
  "startsWith s p = (take (length p) s = p)"

definition endsWith :: "string \<Rightarrow> string \<Rightarrow> bool" where
  "endsWith s p = (length p \<le> length s \<and> drop (length s - length p) s = p)"

text \<open>\<open>s.replace(pat, rep)\<close> with a string pattern: the first occurrence only.\<close>

fun replaceFirst :: "string \<Rightarrow> string \<Rightarrow> string \<Rightarrow> string" where
  "replaceFirst pat rep [] = (if pat = [] then rep else [])"
| "replaceFirst pat rep (c # cs) =
     (if startsWith (c # cs) pat then rep @ drop (length pat) (c # cs)
      else c # replaceFirst pat rep cs)"

text \<open>\<open>s.replace(/^pre/, rep)\<close>: a prefix at the very start of the name.\<close>

definition replacePrefix :: "string \<Rightarrow> string \<Rightarrow> string \<Rightarrow> string" where
  "replacePrefix pre rep s =
     (if startsWith s pre then rep @ drop (length pre) s else s)"

text \<open>\<open>s.replace(/\.ext$/, rep)\<close>: an extension at the very end of the name.\<close>

definition replaceSuffix :: "string \<Rightarrow> string \<Rightarrow> string \<Rightarrow> string" where
  "replaceSuffix suf rep s =
     (if endsWith s suf then take (length s - length suf) s @ rep else s)"

definition isUpperChar :: "char \<Rightarrow> bool" where
  "isUpperChar c = (65 \<le> (of_char c :: nat) \<and> (of_char c :: nat) \<le> 90)"

definition isLowerChar :: "char \<Rightarrow> bool" where
  "isLowerChar c = (97 \<le> (of_char c :: nat) \<and> (of_char c :: nat) \<le> 122)"

definition toLowerChar :: "char \<Rightarrow> char" where
  "toLowerChar c = (if isUpperChar c then char_of ((of_char c :: nat) + 32) else c)"

definition toUpperChar :: "char \<Rightarrow> char" where
  "toUpperChar c = (if isLowerChar c then char_of ((of_char c :: nat) - 32) else c)"

definition toLowerCase :: "string \<Rightarrow> string" where
  "toLowerCase s = map toLowerChar s"

text \<open>The class \<open>\s\<close>: space, tab, line feed, vertical tab, form feed, carriage return.\<close>

definition isSpace :: "char \<Rightarrow> bool" where
  "isSpace c = ((of_char c :: nat) = 32 \<or> (9 \<le> (of_char c :: nat) \<and> (of_char c :: nat) \<le> 13))"

text \<open>The class \<open>[-\s]\<close>.\<close>

definition isSep :: "char \<Rightarrow> bool" where
  "isSep c = (c = CHR ''-'' \<or> isSpace c)"

text \<open>The characters that \<open>.\<close> does not match.\<close>

definition isLineTerminator :: "char \<Rightarrow> bool" where
  "isLineTerminator c = ((of_char c :: nat) = 10 \<or> (of_char c :: nat) = 13)"

section \<open>Context builder (generateProject, lines 18 to 29)\<close>

text \<open>\<open>config.name.toLowerCase().replace(/\s+/g, '-')\<close>: every maximal run of
  whitespace becomes one hyphen.\<close>

function hyphenate :: "string \<Rightarrow> string" where
  "hyphenate [] = []"
| "hyphenate (c # cs) =
     (if isSpace c then CHR ''-'' # hyphenate (dropWhile isSpace cs)
      else c # hyphenate cs)"
  by pat_completeness auto
termination
  by (relation "measure length") (auto simp: length_dropWhile_le less_Suc_eq_le)

definition kebabCase :: "string \<Rightarrow> string" where
  "kebabCase n = hyphenate (toLowerCase n)"

text \<open>\<open>config.name.replace(/[-\s]+(.)?/g, (_, c) => (c ? c.toUpperCase() : ''))\<close>:
  a maximal run of separators is dropped together with the character after it, which
  is put back in upper case. The run is maximal, so that character is no separator,
  and every line terminator is one: the group matches whenever a character follows.\<close>

function camelCase :: "string \<Rightarrow> string" where
  "camelCase [] = []"
| "camelCase (c # cs) =
     (if isSep c then
        (case dropWhile isSep cs of
           [] \<Rightarrow> []
         | d # ds \<Rightarrow> toUpperChar d # camelCase ds)
      else c # camelCase cs)"
  by pat_completeness auto
termination
proof (relation "measure length", goal_cases)
  case 1
  show ?case by simp
next
  case (2 c cs d ds)
  have "length (dropWhile isSep cs) \<le> length cs"
    by (rule length_dropWhile_le)
  with 2 show ?case by simp
next
  case 3
  show ?case by simp
qed

text \<open>\<open>.replace(/^./, c => c.toUpperCase())\<close>.\<close>

fun upperFirst :: "string \<Rightarrow> string" where
  "upperFirst [] = []"
| "upperFirst (c # cs) = (if isLineTerminator c then c # cs else toUpperChar c # cs)"

definition pascalCase :: "string \<Rightarrow> string" where
  "pascalCase n = upperFirst (camelCase n)"

text \<open>The spread \<open>...config\<close>: every field of the configuration under its own name.\<close>

definition configEntries :: "ProjectConfig \<Rightarrow> TemplateContext" where
  "configEntries config =
     [''name'' \<mapsto> VStr (name config),
      ''description'' \<mapsto> VStr (description config),
      ''author'' \<mapsto> VStr (author config),
      ''version'' \<mapsto> VStr (version config),
      ''license'' \<mapsto> VStr (license config),
      ''typescript'' \<mapsto> VBool (typescript config),
      ''database'' \<mapsto> VStr (databaseName (database config)),
      ''authentication'' \<mapsto> VBool (authentication config),
      ''swagger'' \<mapsto> VBool (swagger config),
      ''testing'' \<mapsto> VBool (testing config),
      ''docker'' \<mapsto> VBool (docker config),
      ''redis'' \<mapsto> VBool (redis config),
      ''websockets'' \<mapsto> VBool (websockets config),
      ''backgroundJobs'' \<mapsto> VBool (backgroundJobs config),
      ''cors'' \<mapsto> VBool (cors config),
      ''rateLimit'' \<mapsto> VBool (rateLimit config),
      ''monitoring'' \<mapsto> VBool (monitoring config),
      ''features'' \<mapsto> VList (features config)]"

text \<open>The object literal of \<open>generateProject\<close>. The properties written after the
  spread override it. The year comes from the clock and is a parameter here.\<close>

definition templateContext :: "string \<Rightarrow> ProjectConfig \<Rightarrow> TemplateContext" where
  "templateContext currentYear config =
     (configEntries config)
       (''currentYear'' \<mapsto> VStr currentYear,
        ''kebabCase'' \<mapsto> VStr (kebabCase (name config)),
        ''camelCase'' \<mapsto> VStr (camelCase (name config)),
        ''pascalCase'' \<mapsto> VStr (pascalCase (name config)),
        ''postgresql'' \<mapsto> VBool (database config = Postgresql),
        ''mysql'' \<mapsto> VBool (database config = Mysql),
        ''sqlite'' \<mapsto> VBool (database config = Sqlite),
        ''mongodb'' \<mapsto> VBool (database config = Mongodb))"

section \<open>Path deriver (processTemplateFile, lines 61 to 80)\<close>

definition targetFileName :: "TemplateContext \<Rightarrow> string \<Rightarrow> string" where
  "targetFileName context fileName =
     (let t1 = (if endsWith fileName ''.mustache''
                then (let t0 = replaceFirst ''.mustache'' [] fileName
                      in if truthy (context ''typescript'')
                         then replaceSuffix ''.js'' ''.ts'' t0
                         else replaceSuffix ''.ts'' ''.js'' t0)
                else fileName)
      in if startsWith t1 ''_'' then replacePrefix ''_'' ''.'' t1 else t1)"

section \<open>File system\<close>

text \<open>
  The target file system is a tree. A path is the list of its segments below the root;
  \<open>path.resolve\<close> has been applied already. The calls of \<open>fs-extra\<close> and \<open>path\<close> that
  the generator makes are modelled by their documented outcome on that tree. Failures
  that depend on the machine (permissions, a full disk) are not part of the model.
\<close>

type_synonym path = "string list"

datatype node = File string | Dir "(string \<times> node) list"

datatype io_error = ENOENT | ENOTDIR | EISDIR | EEXIST

text \<open>\<open>path.join(dir, segment)\<close> for one segment: the result is normalised.\<close>

definition join :: "path \<Rightarrow> string \<Rightarrow> path" where
  "join dir seg =
     (if seg = [] \<or> seg = ''.'' then dir
      else if seg = ''..'' then butlast dir
      else dir @ [seg])"

text \<open>\<open>path.basename(p)\<close>.\<close>

definition basename :: "path \<Rightarrow> string" where
  "basename p = (if p = [] then [] else last p)"

fun lookup :: "node \<Rightarrow> path \<Rightarrow> node option" where
  "lookup n [] = Some n"
| "lookup (File c) (s # p) = None"
| "lookup (Dir es) (s # p) =
     (case map_of es s of None \<Rightarrow> None | Some n \<Rightarrow> lookup n p)"

text \<open>\<open>fs.pathExists\<close> and \<open>fs.existsSync\<close>.\<close>

definition pathExists :: "node \<Rightarrow> path \<Rightarrow> bool" where
  "pathExists root p = (lookup root p \<noteq> None)"

text \<open>\<open>fs.remove\<close>: the entry and everything below it; nothing happens when the path
  does not exist. At the root, everything goes.\<close>

fun remove :: "node \<Rightarrow> path \<Rightarrow> node" where
  "remove n [] = Dir []"
| "remove (File c) (s # p) = File c"
| "remove (Dir es) [s] = Dir (AList.delete s es)"
| "remove (Dir es) (s # s' # p) =
     (case map_of es s of
        None \<Rightarrow> Dir es
      | Some n \<Rightarrow> Dir (AList.update s (remove n (s' # p)) es))"

text \<open>\<open>fs.ensureDir\<close>: the directory and its missing ancestors are created; a file on
  the way is an error.\<close>

fun ensureDir :: "node \<Rightarrow> path \<Rightarrow> io_error + node" where
  "ensureDir (File c) [] = Inl EEXIST"
| "ensureDir (File c) (s # p) = Inl ENOTDIR"
| "ensureDir (Dir es) [] = Inr (Dir es)"
| "ensureDir (Dir es) (s # p) =
     (case ensureDir (case map_of es s of None \<Rightarrow> Dir [] | Some n \<Rightarrow> n) p of
        Inl e \<Rightarrow> Inl e
      | Inr n' \<Rightarrow> Inr (Dir (AList.update s n' es)))"

text \<open>\<open>fs.writeFile\<close>: the parent must be a directory and the target must not be one.\<close>

fun writeFile :: "node \<Rightarrow> path \<Rightarrow> string \<Rightarrow> io_error + node" where
  "writeFile n [] data = Inl EISDIR"
| "writeFile (File c) (s # p) data = Inl ENOTDIR"
| "writeFile (Dir es) [s] data =
     (case map_of es s of
        Some (Dir sub) \<Rightarrow> Inl EISDIR
      | _ \<Rightarrow> Inr (Dir (AList.update s (File data) es)))"
| "writeFile (Dir es) (s # s' # p) data =
     (case map_of es s of
        None \<Rightarrow> Inl ENOENT
      | Some n \<Rightarrow>
          (case writeFile n (s' # p) data of
             Inl e \<Rightarrow> Inl e
           | Inr n' \<Rightarrow> Inr (Dir (AList.update s n' es))))"

text \<open>\<open>fs.copy(sourceFile, targetFile)\<close> for a source that is a file with the bytes
  \<open>data\<close>: a directory at the target is an error; the parent of the target is created
  when it is missing; an existing file is overwritten.\<close>

definition copyFile :: "node \<Rightarrow> path \<Rightarrow> string \<Rightarrow> io_error + node" where
  "copyFile root dest data =
     (case lookup root dest of
        Some (Dir sub) \<Rightarrow> Inl EISDIR
      | _ \<Rightarrow>
          (case ensureDir root (butlast dest) of
             Inl e \<Rightarrow> Inl e
           | Inr root' \<Rightarrow> writeFile root' dest data))"

section \<open>Path validation (src/utils/validation.ts)\<close>

datatype validation = Valid | Invalid string

text \<open>\<open>validateProjectPath\<close>. The \<open>catch\<close> branch answers failures of the machine,
  which the tree does not have.\<close>

definition validateProjectPath :: "node \<Rightarrow> path \<Rightarrow> validation" where
  "validateProjectPath root absolutePath =
     (case lookup root absolutePath of
        None \<Rightarrow> Valid
      | Some (File c) \<Rightarrow> Invalid ''Path exists and is a file, not a directory''
      | Some (Dir files) \<Rightarrow>
          (if length files > 0 then Invalid ''Directory is not empty'' else Valid))"

section \<open>Tree materializer and entry point (the generator module)\<close>

text \<open>
  The packaged template tree is read and never written: it is a value of its own, apart
  from the target file system. A leaf holds the bytes of the file, or \<open>None\<close> when the
  file cannot be read.
\<close>

datatype tnode = Leaf "string option" | Directory "(string \<times> tnode) list"

text \<open>What the generator can raise: its own error for an existing target, a failure
  of a file system call, and whatever the renderer raises.\<close>

datatype 'e error = DirectoryExists path | IOError io_error | RenderError 'e

text \<open>The state: the target file system and the lines written by \<open>console.error\<close>
  (each line \<open>Error processing template: <sourceFile>\<close>, kept as the source path).\<close>

record world =
  files :: node
  console :: "path list"

text \<open>
  \<open>processTemplateFile\<close>. The renderer \<open>Mustache.render\<close> comes from the package
  \<open>mustache\<close> and is a parameter; \<open>content\<close> is what reading \<open>sourceFile\<close> returns.
\<close>

definition processTemplateFile ::
  "(string \<Rightarrow> TemplateContext \<Rightarrow> 'e + string) \<Rightarrow> path \<Rightarrow> string option \<Rightarrow> path \<Rightarrow>
   TemplateContext \<Rightarrow> world \<Rightarrow> ('e error \<times> world) + world" where
  "processTemplateFile render sourceFile content targetDir context w =
     (let fileName = basename sourceFile;
          targetFile = join targetDir (targetFileName context fileName)
      in if endsWith fileName ''.mustache'' then
           (case content of
              None \<Rightarrow> Inl (IOError ENOENT, w\<lparr>console := console w @ [sourceFile]\<rparr>)
            | Some templateContent \<Rightarrow>
                (case render templateContent context of
                   Inl e \<Rightarrow> Inl (RenderError e, w\<lparr>console := console w @ [sourceFile]\<rparr>)
                 | Inr renderedContent \<Rightarrow>
                     (case writeFile (files w) targetFile renderedContent of
                        Inl e \<Rightarrow> Inl (IOError e, w\<lparr>console := console w @ [sourceFile]\<rparr>)
                      | Inr root' \<Rightarrow> Inr (w\<lparr>files := root'\<rparr>))))
         else
           (case content of
              None \<Rightarrow> Inl (IOError ENOENT, w)
            | Some data \<Rightarrow>
                (case copyFile (files w) targetFile data of
                   Inl e \<Rightarrow> Inl (IOError e, w)
                 | Inr root' \<Rightarrow> Inr (w\<lparr>files := root'\<rparr>))))"

text \<open>\<open>copyTemplate\<close>: the loop over the entries of one template directory, in the order
  \<open>readdir\<close> lists them. The first failure ends the loop.\<close>

fun copyItems ::
  "(string \<Rightarrow> TemplateContext \<Rightarrow> 'e + string) \<Rightarrow> (string \<times> tnode) list \<Rightarrow> path \<Rightarrow> path \<Rightarrow>
   TemplateContext \<Rightarrow> world \<Rightarrow> ('e error \<times> world) + world" where
  "copyItems render [] templatesDir targetDir context w = Inr w"
| "copyItems render ((item, Leaf content) # rest) templatesDir targetDir context w =
     (case processTemplateFile render (join templatesDir item) content targetDir context w of
        Inl r \<Rightarrow> Inl r
      | Inr w1 \<Rightarrow> copyItems render rest templatesDir targetDir context w1)"
| "copyItems render ((item, Directory sub) # rest) templatesDir targetDir context w =
     (case ensureDir (files w) (join targetDir item) of
        Inl e \<Rightarrow> Inl (IOError e, w)
      | Inr root1 \<Rightarrow>
          (case copyItems render sub (join templatesDir item) (join targetDir item) context
                  (w\<lparr>files := root1\<rparr>) of
             Inl r \<Rightarrow> Inl r
           | Inr w2 \<Rightarrow> copyItems render rest templatesDir targetDir context w2))"

text \<open>\<open>readdir\<close> of a path that is a file fails.\<close>

fun copyTemplate ::
  "(string \<Rightarrow> TemplateContext \<Rightarrow> 'e + string) \<Rightarrow> tnode \<Rightarrow> path \<Rightarrow> path \<Rightarrow>
   TemplateContext \<Rightarrow> world \<Rightarrow> ('e error \<times> world) + world" where
  "copyTemplate render (Leaf content) templatesDir targetDir context w = Inl (IOError ENOTDIR, w)"
| "copyTemplate render (Directory items) templatesDir targetDir context w =
     copyItems render items templatesDir targetDir context w"

record GeneratorOptions =
  projectPath :: path
  config :: ProjectConfig
  overwrite :: "bool option"

text \<open>\<open>generateProject\<close>. The packaged templates (\<open>templates\<close> at \<open>templatesDir\<close>) and
  the year of the clock are parameters; \<open>overwrite\<close> defaults to \<open>false\<close>.\<close>

definition generateProject ::
  "(string \<Rightarrow> TemplateContext \<Rightarrow> 'e + string) \<Rightarrow> tnode \<Rightarrow> path \<Rightarrow> string \<Rightarrow>
   GeneratorOptions \<Rightarrow> world \<Rightarrow> ('e error \<times> world) + world" where
  "generateProject render templates templatesDir currentYear options w =
     (let force = (case overwrite options of None \<Rightarrow> False | Some b \<Rightarrow> b)
      in if pathExists (files w) (projectPath options) \<and> \<not> force
         then Inl (DirectoryExists (projectPath options), w)
         else
           (let w1 = (if pathExists (files w) (projectPath options)
                      then w\<lparr>files := remove (files w) (projectPath options)\<rparr> else w)
            in case ensureDir (files w1) (projectPath options) of
                 Inl e \<Rightarrow> Inl (IOError e, w1)
               | Inr root2 \<Rightarrow>
                   copyTemplate render templates templatesDir (projectPath options)
                     (templateContext currentYear (config options)) (w1\<lparr>files := root2\<rparr>)))"

subsection \<open>The steps of the walk\<close>

text \<open>
  The walk of \<open>copyTemplate\<close> written out as the list of its steps, in the order in
  which it takes them: an entry that is a file is processed, an entry that is a
  directory is created in the target and then its own entries are walked, before the
  next entry of the parent. The list serves to name the step at which a run fails, at
  any depth of the tree; \<open>copyItems\<close> is proved to run exactly these steps.
\<close>

datatype step = MakeDir path | ProcessFile path "string option" path

fun steps :: "(string \<times> tnode) list \<Rightarrow> path \<Rightarrow> path \<Rightarrow> step list" where
  "steps [] templatesDir targetDir = []"
| "steps ((item, Leaf content) # rest) templatesDir targetDir =
     ProcessFile (join templatesDir item) content targetDir # steps rest templatesDir targetDir"
| "steps ((item, Directory sub) # rest) templatesDir targetDir =
     MakeDir (join targetDir item)
       # steps sub (join templatesDir item) (join targetDir item)
       @ steps rest templatesDir targetDir"

fun runStep ::
  "(string \<Rightarrow> TemplateContext \<Rightarrow> 'e + string) \<Rightarrow> TemplateContext \<Rightarrow> step \<Rightarrow> world \<Rightarrow>
   ('e error \<times> world) + world" where
  "runStep render context (MakeDir targetItemDir) w =
     (case ensureDir (files w) targetItemDir of
        Inl e \<Rightarrow> Inl (IOError e, w)
      | Inr root1 \<Rightarrow> Inr (w\<lparr>files := root1\<rparr>))"
| "runStep render context (ProcessFile sourceFile content targetDir) w =
     processTemplateFile render sourceFile content targetDir context w"

fun runSteps ::
  "(string \<Rightarrow> TemplateContext \<Rightarrow> 'e + string) \<Rightarrow> TemplateContext \<Rightarrow> step list \<Rightarrow> world \<Rightarrow>
   ('e error \<times> world) + world" where
  "runSteps render context [] w = Inr w"
| "runSteps render context (s # ss) w =
     (case runStep render context s w of
        Inl r \<Rightarrow> Inl r
      | Inr w1 \<Rightarrow> runSteps render context ss w1)"

section \<open>Conditional template expander\<close>

text \<open>
  The generator renders a template with \<open>Mustache.render\<close> of the package \<open>mustache\<close>,
  called with its default settings. That package is not part of the sources. The
  expander below follows the design of the specification (its sections 4.2 and 6) for
  the grammar and the scan. In two places the design of the specification and the
  package differ, and there the definitions follow the package, which is what the
  generator runs: the double-brace variable is HTML-escaped, and the error for
  malformed nesting is the one the package raises. The materializer above takes the
  renderer as a parameter, and the statements about expansion use this one. Comments,
  partials, changes of delimiters, dotted names, the iteration over a list and the
  removal of lines that hold only a section marker belong to the package and not to the
  grammar of the specification; they are not modelled.
\<close>

text \<open>Modelled from the spec: the markers of the template grammar, which the missing
  renderer recognises: positive open \<open>{{#flag}}\<close>, negated open \<open>{{^flag}}\<close>, close
  \<open>{{/flag}}\<close>, and the two forms of variable substitution, \<open>{{flag}}\<close> (\<open>Var\<close>) and
  \<open>{{{flag}}}\<close> (\<open>RawVar\<close>).\<close>

datatype marker = Open string | NOpen string | Close string | Var string | RawVar string

definition isDigitChar :: "char \<Rightarrow> bool" where
  "isDigitChar c = (48 \<le> (of_char c :: nat) \<and> (of_char c :: nat) \<le> 57)"

text \<open>Modelled from the spec: a flag of the missing renderer is a bare identifier:
  letters, digits and the underscore.\<close>

definition isIdentChar :: "char \<Rightarrow> bool" where
  "isIdentChar c = (isUpperChar c \<or> isLowerChar c \<or> isDigitChar c \<or> c = CHR ''_'')"

text \<open>Modelled from the spec: reading the flag inside the braces of a marker of the
  missing renderer; the whitespace around it is trimmed.\<close>

definition readFlag :: "string \<Rightarrow> (string \<times> string) option" where
  "readFlag s =
     (let s1 = dropWhile isSpace s;
          f = takeWhile isIdentChar s1;
          s2 = dropWhile isSpace (dropWhile isIdentChar s1)
      in if f = [] then None else Some (f, s2))"

text \<open>Modelled from the spec: the rest of a marker of the missing renderer after its
  opening braces: the flag, then the closing braces.\<close>

definition closeMarker ::
  "(string \<Rightarrow> marker) \<Rightarrow> string \<Rightarrow> string \<Rightarrow> (marker \<times> string) option" where
  "closeMarker mk closing body =
     (case readFlag body of
        None \<Rightarrow> None
      | Some (f, r) \<Rightarrow>
          if startsWith r closing then Some (mk f, drop (length closing) r) else None)"

text \<open>Modelled from the spec: the marker of the missing renderer that starts at the
  head of the text, with the text after it. Text of any other shape is literal.\<close>

definition parseMarker :: "string \<Rightarrow> (marker \<times> string) option" where
  "parseMarker s =
     (if startsWith s ''{{{'' then closeMarker RawVar ''}}}'' (drop 3 s)
      else if startsWith s ''{{#'' then closeMarker Open ''}}'' (drop 3 s)
      else if startsWith s ''{{^'' then closeMarker NOpen ''}}'' (drop 3 s)
      else if startsWith s ''{{/'' then closeMarker Close ''}}'' (drop 3 s)
      else if startsWith s ''{{'' then closeMarker Var ''}}'' (drop 2 s)
      else None)"

text \<open>\<open>String(value)\<close> of an array of strings.\<close>

fun joinComma :: "string list \<Rightarrow> string" where
  "joinComma [] = []"
| "joinComma [x] = x"
| "joinComma (x # y # ys) = x @ '','' @ joinComma (y # ys)"

text \<open>Modelled from the spec: the stringified context value that the missing renderer
  puts in place of a variable marker, before any escaping: \<open>String(value)\<close>, and
  nothing for a missing name.\<close>

fun stringify :: "ctx_value option \<Rightarrow> string" where
  "stringify None = []"
| "stringify (Some (VBool b)) = (if b then ''true'' else ''false'')"
| "stringify (Some (VStr s)) = s"
| "stringify (Some (VList xs)) = joinComma xs"

text \<open>Modelled from the spec: the escaping of the missing renderer. The specification
  knows of an escaping variant of the variable marker and designs both forms as raw;
  the package, called with its default settings, escapes the value of the double-brace
  form for HTML and leaves only the triple-brace form raw. These definitions follow
  the package: the characters \<open>&\<close>, \<open><\<close>, \<open>>\<close>, the double quote, the single quote,
  \<open>/\<close>, the backtick and \<open>=\<close> become entities.\<close>

definition escapeChar :: "char \<Rightarrow> string" where
  "escapeChar c =
     (if c = CHR ''&'' then ''&amp;''
      else if c = CHR ''<'' then ''&lt;''
      else if c = CHR ''>'' then ''&gt;''
      else if c = CHR 0x22 then ''&quot;''
      else if c = CHR 0x27 then ''&#39;''
      else if c = CHR ''/'' then ''&#x2F;''
      else if c = CHR 0x60 then ''&#x60;''
      else if c = CHR ''='' then ''&#x3D;''
      else [c])"

definition escapeHtml :: "string \<Rightarrow> string" where
  "escapeHtml s = concat (map escapeChar s)"

text \<open>Modelled from the spec: an entry of the stack of open directives of the missing
  renderer: flag, polarity, start offset, and the output collected before the
  directive opened.\<close>

datatype frame = Frame (flag: string) (negated: bool) (startOffset: nat) (outer: string)

text \<open>Modelled from the spec: the error of the missing renderer for malformed nesting.
  The specification designs an error that names the file, the expected flag and the
  line. The package is given the text and the context only, and raises one error with
  the message \<open>Unclosed section f at n\<close> or \<open>Unopened section f at n\<close>: one flag and
  the offset \<open>n\<close> into the text. This definition follows the package.\<close>

datatype render_error = UnclosedSection string nat | UnopenedSection string nat

text \<open>Modelled from the spec: the retain-or-drop decision of the missing renderer: a
  positive block is retained iff the flag is truthy, a negated block iff it is not.\<close>

definition retained :: "TemplateContext \<Rightarrow> frame \<Rightarrow> bool" where
  "retained ctx fr = (if negated fr then \<not> truthy (ctx (flag fr)) else truthy (ctx (flag fr)))"

lemma readFlag_shorter: "readFlag s = Some (f, r) \<Longrightarrow> length r \<le> length s"
proof -
  assume a: "readFlag s = Some (f, r)"
  have "length (dropWhile isSpace (dropWhile isIdentChar (dropWhile isSpace s)))
          \<le> length (dropWhile isIdentChar (dropWhile isSpace s))"
    by (rule length_dropWhile_le)
  also have "\<dots> \<le> length (dropWhile isSpace s)"
    by (rule length_dropWhile_le)
  also have "\<dots> \<le> length s"
    by (rule length_dropWhile_le)
  finally show ?thesis
    using a by (auto simp: readFlag_def Let_def split: if_splits)
qed

lemma closeMarker_shorter: "closeMarker mk cl b = Some (m, r) \<Longrightarrow> length r \<le> length b"
  by (auto simp: closeMarker_def split: option.splits if_splits dest!: readFlag_shorter)

lemma startsWith_length: "startsWith s p \<Longrightarrow> length p \<le> length s"
proof -
  assume "startsWith s p"
  then have "length (take (length p) s) = length p"
    by (simp add: startsWith_def)
  then show ?thesis by simp
qed

lemma closeMarker_drop:
  assumes "startsWith s p" and "p \<noteq> []"
    and "closeMarker mk cl (drop (length p) s) = Some (m, r)"
  shows "length r < length s"
proof -
  have "length p \<le> length s" using assms(1) by (rule startsWith_length)
  moreover have "length r \<le> length s - length p"
    using closeMarker_shorter [OF assms(3)] by simp
  moreover have "0 < length p" using assms(2) by simp
  ultimately show ?thesis by linarith
qed

lemma parseMarker_shorter: "parseMarker s = Some (m, r) \<Longrightarrow> length r < length s"
  unfolding parseMarker_def
  using closeMarker_drop [of s "''{{{''" RawVar "''}}}''" m r]
    closeMarker_drop [of s "''{{#''" Open "''}}''" m r]
    closeMarker_drop [of s "''{{^''" NOpen "''}}''" m r]
    closeMarker_drop [of s "''{{/''" Close "''}}''" m r]
    closeMarker_drop [of s "''{{''" Var "''}}''" m r]
  by (simp add: eval_nat_numeral split: if_splits)

text \<open>Modelled from the spec: the single left-to-right scan of the missing renderer.
  An open marker pushes a frame and starts a fresh buffer. A close marker must name
  the flag on top of the stack; the frame is popped and the span is spliced into the
  output collected before it iff it is retained. Malformed nesting raises the error of
  the package: a close marker with an empty stack is an unopened section, at the
  offset of that marker; a close marker that names another flag than the open section
  is an unclosed section, naming the open one, at the offset of the close marker; an
  open marker left at the end is an unclosed section, naming the innermost one, at the
  end of the text.\<close>

function scan ::
  "string \<Rightarrow> TemplateContext \<Rightarrow> frame list \<Rightarrow> string \<Rightarrow> string \<Rightarrow> render_error + string" where
  "scan text ctx stack buf [] =
     (case stack of
        [] \<Rightarrow> Inr buf
      | fr # stack' \<Rightarrow> Inl (UnclosedSection (flag fr) (length text)))"
| "scan text ctx stack buf (c # cs) =
     (case parseMarker (c # cs) of
        None \<Rightarrow> scan text ctx stack (buf @ [c]) cs
      | Some (m, rest) \<Rightarrow>
          (case m of
             Var n \<Rightarrow> scan text ctx stack (buf @ escapeHtml (stringify (ctx n))) rest
           | RawVar n \<Rightarrow> scan text ctx stack (buf @ stringify (ctx n)) rest
           | Open f \<Rightarrow>
               scan text ctx (Frame f False (length text - length (c # cs)) buf # stack) [] rest
           | NOpen f \<Rightarrow>
               scan text ctx (Frame f True (length text - length (c # cs)) buf # stack) [] rest
           | Close f \<Rightarrow>
               (case stack of
                  [] \<Rightarrow> Inl (UnopenedSection f (length text - length (c # cs)))
                | fr # stack' \<Rightarrow>
                    if flag fr = f
                    then scan text ctx stack'
                           (outer fr @ (if retained ctx fr then buf else [])) rest
                    else Inl (UnclosedSection (flag fr) (length text - length (c # cs))))))"
  by pat_completeness auto
termination
  by (relation "measure (\<lambda>(text, ctx, stack, buf, s). length s)")
    (auto dest: parseMarker_shorter)

text \<open>Modelled from the spec: the Conditional Template Expander, in place of the
  missing \<open>Mustache.render\<close>: template text and context in, expanded text or the error
  out.\<close>

definition expand :: "string \<Rightarrow> TemplateContext \<Rightarrow> render_error + string" where
  "expand text ctx = scan text ctx [] [] text"

section \<open>Vocabulary of the statements\<close>

text \<open>A flag name as the grammar writes it, and a text without an opening brace, in
  which no marker can start.\<close>

definition isFlag :: "string \<Rightarrow> bool" where
  "isFlag f = (f \<noteq> [] \<and> list_all isIdentChar f)"

definition isLiteral :: "string \<Rightarrow> bool" where
  "isLiteral s = list_all (\<lambda>c. c \<noteq> CHR ''{'') s"


text \<open>The configuration that the command line builds for \<open>--yes\<close>
  (src/cli/index.ts), for the project name \<open>demo\<close>.\<close>

definition defaultConfig :: ProjectConfig where
  "defaultConfig =
     \<lparr>name = ''demo'', description = ''A production-ready backend API'', author = [],
      version = ''1.0.0'', license = ''MIT'', typescript = True, database = Postgresql,
      authentication = True, swagger = True, testing = True, docker = True, redis = True,
      websockets = False, backgroundJobs = True, cors = True, rateLimit = True,
      monitoring = True,
      features = [''authentication'', ''swagger'', ''testing'', ''docker'', ''redis'',
        ''backgroundJobs'', ''cors'', ''rateLimit'', ''monitoring'']\<rparr>"

section \<open>Path derivation\<close>

text \<open>
  C3. The target name is a function of the source leaf name and the context:
  \<open>app.ts.mustache\<close> becomes \<open>app.ts\<close> when \<open>typescript\<close> is truthy in the context and
  \<open>app.js\<close> otherwise, and \<open>_env.example\<close> becomes \<open>.env.example\<close> in every context.
\<close>

theorem target_name_derivation:
  "targetFileName context ''app.ts.mustache'' =
     (if truthy (context ''typescript'') then ''app.ts'' else ''app.js'')
   \<and> targetFileName context ''_env.example'' = ''.env.example''"
  by (simp add: targetFileName_def endsWith_def startsWith_def replaceSuffix_def
      replacePrefix_def)

section \<open>The context of a run\<close>

text \<open>
  C8. In the context that \<open>generateProject\<close> builds, each of the four engine entries
  is the boolean that says whether its name is the selected engine, so exactly one of
  the four is true.
\<close>

theorem database_engine_exclusivity:
  "templateContext year cfg ''postgresql'' = Some (VBool (database cfg = Postgresql))
   \<and> templateContext year cfg ''mysql'' = Some (VBool (database cfg = Mysql))
   \<and> templateContext year cfg ''sqlite'' = Some (VBool (database cfg = Sqlite))
   \<and> templateContext year cfg ''mongodb'' = Some (VBool (database cfg = Mongodb))
   \<and> length (filter (\<lambda>k. templateContext year cfg k = Some (VBool True))
         [''postgresql'', ''mysql'', ''sqlite'', ''mongodb'']) = 1"
  by (cases "database cfg") (simp_all add: templateContext_def)

section \<open>The entry point and an existing target\<close>

lemma lookup_remove: "p \<noteq> [] \<or> q \<noteq> [] \<Longrightarrow> lookup (remove n p) (p @ q) = None"
proof (induction n p rule: remove.induct)
  case (1 n)
  then show ?case by (cases q) simp_all
next
  case (2 c s p)
  then show ?case by simp
next
  case (3 es s)
  then show ?case by (simp add: AList.delete_conv')
next
  case (4 es s s' p)
  then show ?case by (simp add: AList.update_conv' split: option.splits)
qed

lemma processTemplateFile_not_exists:
  "processTemplateFile render sf c td ctx w \<noteq> Inl (DirectoryExists p, w')"
  by (simp add: processTemplateFile_def Let_def split: option.splits sum.splits)

lemma copyItems_not_exists:
  "\<forall>p w'. copyItems render items sd td ctx w \<noteq> Inl (DirectoryExists p, w')"
proof (induction render items sd td ctx w rule: copyItems.induct)
  case (1 render templatesDir targetDir "context" w)
  then show ?case by simp
next
  case (2 render item content rest templatesDir targetDir "context" w)
  then show ?case
    using processTemplateFile_not_exists by (fastforce split: sum.splits)
next
  case (3 render item sub rest templatesDir targetDir "context" w)
  then show ?case by (auto split: sum.splits)
qed

lemma copyTemplate_not_exists:
  "copyTemplate render t sd td ctx w \<noteq> Inl (DirectoryExists p, w')"
  by (cases t) (simp_all add: copyItems_not_exists)

text \<open>
  C4. When the target exists and \<open>overwrite\<close> is not set, \<open>generateProject\<close> fails with
  the directory-exists error and the state it leaves is the state it found. When the
  target exists and \<open>overwrite\<close> is set, the run is the run on the file system from which
  the target has been removed, and after that removal nothing is left at the target or
  below it.
\<close>

theorem overwrite_semantics:
  assumes "pathExists (files w) (projectPath options)"
  shows "(overwrite options \<noteq> Some True \<longrightarrow>
           generateProject render templates templatesDir year options w =
             Inl (DirectoryExists (projectPath options), w))
       \<and> (overwrite options = Some True \<longrightarrow>
           generateProject render templates templatesDir year options w =
             generateProject render templates templatesDir year options
               (w\<lparr>files := remove (files w) (projectPath options)\<rparr>)
           \<and> (\<forall>q. projectPath options \<noteq> [] \<or> q \<noteq> [] \<longrightarrow>
                  lookup (remove (files w) (projectPath options)) (projectPath options @ q) = None))"
proof (intro conjI impI allI)
  assume "overwrite options \<noteq> Some True"
  with assms show "generateProject render templates templatesDir year options w =
             Inl (DirectoryExists (projectPath options), w)"
    by (cases "overwrite options") (auto simp: generateProject_def)
next
  assume force: "overwrite options = Some True"
  show "generateProject render templates templatesDir year options w =
             generateProject render templates templatesDir year options
               (w\<lparr>files := remove (files w) (projectPath options)\<rparr>)"
  proof (cases "projectPath options = []")
    case True
    with force show ?thesis by (simp add: generateProject_def pathExists_def)
  next
    case False
    then have "lookup (remove (files w) (projectPath options)) (projectPath options @ []) = None"
      by (intro lookup_remove) simp
    with force assms show ?thesis by (simp add: generateProject_def pathExists_def)
  qed
next
  fix q :: path assume "projectPath options \<noteq> [] \<or> q \<noteq> []"
  then show "lookup (remove (files w) (projectPath options)) (projectPath options @ q) = None"
    by (rule lookup_remove)
qed

theorem overwrite_semantics_witness:
  "pathExists (Dir [(''proj'', Dir [(''old.txt'', File ''x'')])]) [''proj'']
   \<and> generateProject (\<lambda>t c. (Inr t :: unit + string))
       (Directory [(''README.md'', Leaf (Some ''hello''))]) [''templates''] ''2026''
       \<lparr>projectPath = [''proj''], config = defaultConfig, overwrite = None\<rparr>
       \<lparr>files = Dir [(''proj'', Dir [(''old.txt'', File ''x'')])], console = []\<rparr>
     = Inl (DirectoryExists [''proj''],
         \<lparr>files = Dir [(''proj'', Dir [(''old.txt'', File ''x'')])], console = []\<rparr>)
   \<and> generateProject (\<lambda>t c. (Inr t :: unit + string))
       (Directory [(''README.md'', Leaf (Some ''hello''))]) [''templates''] ''2026''
       \<lparr>projectPath = [''proj''], config = defaultConfig, overwrite = Some True\<rparr>
       \<lparr>files = Dir [(''proj'', Dir [(''old.txt'', File ''x'')])], console = []\<rparr>
     = Inr \<lparr>files = Dir [(''proj'', Dir [(''README.md'', File ''hello'')])], console = []\<rparr>
   \<and> lookup (remove (Dir [(''proj'', Dir [(''old.txt'', File ''x'')])]) [''proj''])
       [''proj'', ''old.txt''] = None"
  using overwrite_semantics [of
      "\<lparr>files = Dir [(''proj'', Dir [(''old.txt'', File ''x'')])], console = []\<rparr>"
      "\<lparr>projectPath = [''proj''], config = defaultConfig, overwrite = None\<rparr>"
      "\<lambda>t c. (Inr t :: unit + string)" "Directory [(''README.md'', Leaf (Some ''hello''))]"
      "[''templates'']" "''2026''"]
    overwrite_semantics [of
      "\<lparr>files = Dir [(''proj'', Dir [(''old.txt'', File ''x'')])], console = []\<rparr>"
      "\<lparr>projectPath = [''proj''], config = defaultConfig, overwrite = Some True\<rparr>"
      "\<lambda>t c. (Inr t :: unit + string)" "Directory [(''README.md'', Leaf (Some ''hello''))]"
      "[''templates'']" "''2026''"]
  by (simp add: pathExists_def generateProject_def processTemplateFile_def join_def
      basename_def targetFileName_def endsWith_def startsWith_def copyFile_def)

text \<open>
  C10. When \<open>overwrite\<close> is not set, \<open>generateProject\<close> raises the directory-exists
  error exactly when the target path exists, whatever the target holds. An existing
  empty directory passes \<open>validateProjectPath\<close> and is still rejected by the generator.
\<close>

theorem exists_error_iff_target_exists:
  assumes "overwrite options \<noteq> Some True"
  shows "((\<exists>p' w'. generateProject render templates templatesDir year options w =
              Inl (DirectoryExists p', w'))
          \<longleftrightarrow> pathExists (files w) (projectPath options))
       \<and> (lookup (files w) (projectPath options) = Some (Dir []) \<longrightarrow>
             validateProjectPath (files w) (projectPath options) = Valid
           \<and> generateProject render templates templatesDir year options w =
               Inl (DirectoryExists (projectPath options), w))"
proof -
  have force: "(case overwrite options of None \<Rightarrow> False | Some b \<Rightarrow> b) = False"
    using assms by (cases "overwrite options") auto
  show ?thesis
  proof (cases "pathExists (files w) (projectPath options)")
    case True
    then show ?thesis
      using force
      by (auto simp: generateProject_def validateProjectPath_def)
  next
    case False
    then show ?thesis
      using force
      by (auto simp: generateProject_def pathExists_def copyTemplate_not_exists
          split: sum.splits)
  qed
qed

theorem exists_error_iff_target_exists_witness:
  "pathExists (Dir [(''proj'', Dir [])]) [''proj'']
   \<and> validateProjectPath (Dir [(''proj'', Dir [])]) [''proj''] = Valid
   \<and> generateProject (\<lambda>t c. (Inr t :: unit + string))
       (Directory [(''README.md'', Leaf (Some ''hello''))]) [''templates''] ''2026''
       \<lparr>projectPath = [''proj''], config = defaultConfig, overwrite = None\<rparr>
       \<lparr>files = Dir [(''proj'', Dir [])], console = []\<rparr>
     = Inl (DirectoryExists [''proj''], \<lparr>files = Dir [(''proj'', Dir [])], console = []\<rparr>)
   \<and> \<not> pathExists (Dir []) [''proj'']
   \<and> generateProject (\<lambda>t c. (Inr t :: unit + string))
       (Directory [(''README.md'', Leaf (Some ''hello''))]) [''templates''] ''2026''
       \<lparr>projectPath = [''proj''], config = defaultConfig, overwrite = None\<rparr>
       \<lparr>files = Dir [], console = []\<rparr>
     = Inr \<lparr>files = Dir [(''proj'', Dir [(''README.md'', File ''hello'')])], console = []\<rparr>"
  using exists_error_iff_target_exists [of
      "\<lparr>projectPath = [''proj''], config = defaultConfig, overwrite = None\<rparr>"
      "\<lambda>t c. (Inr t :: unit + string)" "Directory [(''README.md'', Leaf (Some ''hello''))]"
      "[''templates'']" "''2026''"
      "\<lparr>files = Dir [(''proj'', Dir [])], console = []\<rparr>"]
  by (simp add: pathExists_def generateProject_def processTemplateFile_def join_def
      basename_def targetFileName_def endsWith_def startsWith_def copyFile_def
      validateProjectPath_def)

section \<open>Leaves that are not templates\<close>

lemma lookup_writeFile:
  "writeFile root p data = Inr root' \<Longrightarrow> lookup root' p = Some (File data)"
proof (induction root p data arbitrary: root' rule: writeFile.induct)
  case (1 n data)
  then show ?case by simp
next
  case (2 c s p data)
  then show ?case by simp
next
  case (3 es s data)
  then show ?case
    by (auto simp: AList.update_conv' split: option.splits node.splits)
next
  case (4 es s s' p data)
  then show ?case
    by (auto simp: AList.update_conv' split: option.splits sum.splits)
qed

lemma lookup_copyFile:
  "copyFile root dest data = Inr root' \<Longrightarrow> lookup root' dest = Some (File data)"
  by (auto simp: copyFile_def lookup_writeFile split: option.splits node.splits sum.splits)

lemma ensureDir_existing:
  "lookup root d = Some (Dir es) \<Longrightarrow> ensureDir root d = Inr root"
proof (induction root d rule: ensureDir.induct)
  case (1 c)
  then show ?case by simp
next
  case (2 c s p)
  then show ?case by simp
next
  case (3 es')
  then show ?case by simp
next
  case (4 es' s p)
  then show ?case
    by (auto simp: AList.update_triv split: option.splits)
qed

lemma writeFile_in_dir:
  "lookup root d = Some (Dir es) \<Longrightarrow> \<forall>sub. map_of es s \<noteq> Some (Dir sub) \<Longrightarrow>
   \<exists>root'. writeFile root (d @ [s]) data = Inr root'"
proof (induction root d arbitrary: es rule: lookup.induct)
  case (1 n)
  then show ?case by (auto split: option.splits node.splits)
next
  case (2 c s' p)
  then show ?case by simp
next
  case (3 es' s' p)
  then obtain n where n: "map_of es' s' = Some n" "lookup n p = Some (Dir es)"
    by (auto split: option.splits)
  from 3 n obtain n' where "writeFile n (p @ [s]) data = Inr n'"
    by blast
  with n show ?case
    by (cases "p @ [s]") auto
qed

lemma lookup_child:
  "lookup root d = Some (Dir es) \<Longrightarrow> lookup root (d @ [s]) = map_of es s"
proof (induction root d rule: lookup.induct)
  case (1 n)
  then show ?case by (simp split: option.splits)
next
  case (2 c s' p)
  then show ?case by simp
next
  case (3 es' s' p)
  then show ?case by (auto split: option.splits)
qed

lemma copyFile_in_dir:
  assumes "lookup root d = Some (Dir es)" and "\<forall>sub. map_of es s \<noteq> Some (Dir sub)"
  shows "\<exists>root'. copyFile root (d @ [s]) data = Inr root'"
proof -
  have "lookup root (d @ [s]) = map_of es s"
    using assms(1) by (rule lookup_child)
  moreover have "ensureDir root d = Inr root"
    using assms(1) by (rule ensureDir_existing)
  moreover obtain root' where "writeFile root (d @ [s]) data = Inr root'"
    using writeFile_in_dir [OF assms] by blast
  ultimately show ?thesis
    using assms(2) by (auto simp: copyFile_def split: option.splits node.splits)
qed

lemma targetFileName_plain:
  "\<not> endsWith fileName ''.mustache'' \<Longrightarrow>
   targetFileName ctx fileName =
     (if startsWith fileName ''_'' then CHR ''.'' # tl fileName else fileName)"
  by (simp add: targetFileName_def replacePrefix_def drop_Suc)

text \<open>
  C9. For a source leaf whose name does not end in \<open>.mustache\<close>: the target name is
  the source name with one leading underscore rewritten to a dot, whatever the context
  says about \<open>typescript\<close>; when \<open>processTemplateFile\<close> succeeds, the file at the target
  path holds the bytes of the source and nothing is logged, whatever the renderer is;
  and it does succeed when the target directory exists, the target name is a proper
  segment and no directory stands at the target path.
\<close>

theorem verbatim_copy:
  assumes "\<not> endsWith (basename sourceFile) ''.mustache''"
  shows "targetFileName ctx (basename sourceFile) =
           (if startsWith (basename sourceFile) ''_'' then CHR ''.'' # tl (basename sourceFile)
            else basename sourceFile)
       \<and> (\<forall>w'. processTemplateFile render sourceFile (Some bytes) targetDir ctx w = Inr w' \<longrightarrow>
             lookup (files w') (join targetDir (targetFileName ctx (basename sourceFile)))
               = Some (File bytes)
             \<and> console w' = console w)
       \<and> (lookup (files w) targetDir = Some (Dir es)
           \<and> join targetDir (targetFileName ctx (basename sourceFile))
               = targetDir @ [targetFileName ctx (basename sourceFile)]
           \<and> (\<forall>sub. map_of es (targetFileName ctx (basename sourceFile)) \<noteq> Some (Dir sub))
           \<longrightarrow> (\<exists>w'. processTemplateFile render sourceFile (Some bytes) targetDir ctx w = Inr w'))"
proof (intro conjI allI impI)
  show "targetFileName ctx (basename sourceFile) =
           (if startsWith (basename sourceFile) ''_'' then CHR ''.'' # tl (basename sourceFile)
            else basename sourceFile)"
    using assms by (rule targetFileName_plain)
next
  fix w'
  assume ok: "processTemplateFile render sourceFile (Some bytes) targetDir ctx w = Inr w'"
  then obtain root' where
    c: "copyFile (files w) (join targetDir (targetFileName ctx (basename sourceFile))) bytes
          = Inr root'"
    and w': "w' = w\<lparr>files := root'\<rparr>"
    using assms by (auto simp: processTemplateFile_def Let_def split: sum.splits)
  from c w' show "lookup (files w') (join targetDir (targetFileName ctx (basename sourceFile)))
               = Some (File bytes)"
    by (simp add: lookup_copyFile)
  from w' show "console w' = console w" by simp
next
  assume pre: "lookup (files w) targetDir = Some (Dir es)
           \<and> join targetDir (targetFileName ctx (basename sourceFile))
               = targetDir @ [targetFileName ctx (basename sourceFile)]
           \<and> (\<forall>sub. map_of es (targetFileName ctx (basename sourceFile)) \<noteq> Some (Dir sub))"
  then obtain root' where
    "copyFile (files w) (targetDir @ [targetFileName ctx (basename sourceFile)]) bytes = Inr root'"
    using copyFile_in_dir [of "files w" targetDir es "targetFileName ctx (basename sourceFile)" bytes]
    by blast
  with pre assms
  show "\<exists>w'. processTemplateFile render sourceFile (Some bytes) targetDir ctx w = Inr w'"
    by (simp add: processTemplateFile_def Let_def)
qed

theorem verbatim_copy_witness:
  "\<not> endsWith (basename [''templates'', ''_env.example'']) ''.mustache''
   \<and> targetFileName (templateContext ''2026'' (defaultConfig\<lparr>typescript := False\<rparr>))
       (basename [''templates'', ''_env.example'']) = ''.env.example''
   \<and> processTemplateFile (\<lambda>t c. (Inr t :: unit + string)) [''templates'', ''_env.example'']
       (Some ''KEY={{x}}'') [''proj'']
       (templateContext ''2026'' (defaultConfig\<lparr>typescript := False\<rparr>))
       \<lparr>files = Dir [(''proj'', Dir [])], console = []\<rparr>
     = Inr \<lparr>files = Dir [(''proj'', Dir [(''.env.example'', File ''KEY={{x}}'')])], console = []\<rparr>"
  using verbatim_copy [of "[''templates'', ''_env.example'']"
      "templateContext ''2026'' (defaultConfig\<lparr>typescript := False\<rparr>)"
      "\<lambda>t c. (Inr t :: unit + string)" "''KEY={{x}}''"
      "[''proj'']" "\<lparr>files = Dir [(''proj'', Dir [])], console = []\<rparr>" "[]"]
  by (simp add: basename_def endsWith_def startsWith_def join_def processTemplateFile_def
      copyFile_def)

section \<open>Failure during materialization\<close>

lemma runSteps_append:
  "runSteps render ctx (a @ b) w =
     (case runSteps render ctx a w of
        Inl r \<Rightarrow> Inl r
      | Inr w' \<Rightarrow> runSteps render ctx b w')"
  by (induction a arbitrary: w) (simp_all split: sum.splits)

text \<open>The walk runs exactly its steps: a failure below a directory is the failure of
  the walk of the parent, and a success hands its state on to the next entry.\<close>

lemma copyItems_steps:
  "copyItems render items sd td ctx w = runSteps render ctx (steps items sd td) w"
proof (induction render items sd td ctx w rule: copyItems.induct)
  case (1 render templatesDir targetDir "context" w)
  show ?case by simp
next
  case (2 render item content rest templatesDir targetDir "context" w)
  then show ?case by (simp split: sum.splits)
next
  case (3 render item sub rest templatesDir targetDir "context" w)
  then show ?case by (simp add: runSteps_append split: sum.splits)
qed

lemma generateProject_prepared:
  assumes "generateProject render (Directory []) td y opts w = Inr wp"
  shows "generateProject render (Directory items) td y opts w =
           copyItems render items td (projectPath opts) (templateContext y (config opts)) wp"
  using assms by (simp add: generateProject_def Let_def split: sum.splits if_splits)

lemma runStep_failure_writes_nothing:
  "runStep render ctx s w = Inl (e, w') \<Longrightarrow> files w' = files w"
  by (cases s)
    (auto simp: processTemplateFile_def Let_def split: sum.splits option.splits if_splits)

text \<open>
  C7, as the code has it. Let the target directory be prepared (the run on an empty
  template tree succeeds, in state \<open>wp\<close>). Let \<open>s\<close> be any step of the walk of the
  template tree, at any depth: the processing of a template file, where \<open>runStep\<close> is
  \<open>processTemplateFile\<close>, or the creation of a directory. Let the steps before it
  succeed, leaving state \<open>w1\<close>, and let \<open>s\<close> fail there with error \<open>e\<close>. Then the run
  raises \<open>e\<close>; no later step is taken, whatever comes after; and the target file system
  it leaves is the one the steps before the failure produced: what they wrote is still
  there, nothing is cleaned up.
\<close>

theorem abort_on_failure:
  assumes "generateProject render (Directory []) templatesDir year options w = Inr wp"
    and "steps items templatesDir (projectPath options) = before @ s # after"
    and "runSteps render (templateContext year (config options)) before wp = Inr w1"
    and "runStep render (templateContext year (config options)) s w1 = Inl (e, w2)"
  shows "generateProject render (Directory items) templatesDir year options w = Inl (e, w2)
       \<and> files w2 = files w1"
proof -
  have "runSteps render (templateContext year (config options)) (s # after) w1 = Inl (e, w2)"
    using assms(4) by simp
  then have "runSteps render (templateContext year (config options)) (before @ s # after) wp
               = Inl (e, w2)"
    using assms(3) by (simp only: runSteps_append sum.case)
  then have "copyItems render items templatesDir (projectPath options)
               (templateContext year (config options)) wp = Inl (e, w2)"
    by (simp only: copyItems_steps assms(2))
  then have "generateProject render (Directory items) templatesDir year options w = Inl (e, w2)"
    by (simp only: generateProject_prepared [OF assms(1)])
  moreover have "files w2 = files w1"
    using assms(4) by (rule runStep_failure_writes_nothing)
  ultimately show ?thesis by (rule conjI)
qed

theorem abort_on_failure_witness:
  "generateProject expand (Directory []) [''templates''] ''2026''
       \<lparr>projectPath = [''proj''], config = defaultConfig, overwrite = None\<rparr>
       \<lparr>files = Dir [], console = []\<rparr>
     = Inr \<lparr>files = Dir [(''proj'', Dir [])], console = []\<rparr>
   \<and> steps [(''README.md'', Leaf (Some ''hello'')),
             (''src'', Directory [(''app.ts.mustache'', Leaf (Some ''ok'')),
                                  (''bad.mustache'', Leaf (Some ''{{#docker}}'')),
                                  (''util.txt'', Leaf (Some ''never written''))]),
             (''later.txt'', Leaf (Some ''never written''))] [''templates''] [''proj'']
     = [ProcessFile [''templates'', ''README.md''] (Some ''hello'') [''proj''],
        MakeDir [''proj'', ''src''],
        ProcessFile [''templates'', ''src'', ''app.ts.mustache''] (Some ''ok'') [''proj'', ''src'']]
       @ ProcessFile [''templates'', ''src'', ''bad.mustache''] (Some ''{{#docker}}'')
           [''proj'', ''src'']
       # [ProcessFile [''templates'', ''src'', ''util.txt''] (Some ''never written'')
            [''proj'', ''src''],
          ProcessFile [''templates'', ''later.txt''] (Some ''never written'') [''proj'']]
   \<and> generateProject expand
       (Directory [(''README.md'', Leaf (Some ''hello'')),
                   (''src'', Directory [(''app.ts.mustache'', Leaf (Some ''ok'')),
                                        (''bad.mustache'', Leaf (Some ''{{#docker}}'')),
                                        (''util.txt'', Leaf (Some ''never written''))]),
                   (''later.txt'', Leaf (Some ''never written''))])
       [''templates''] ''2026''
       \<lparr>projectPath = [''proj''], config = defaultConfig, overwrite = None\<rparr>
       \<lparr>files = Dir [], console = []\<rparr>
     = Inl (RenderError (UnclosedSection ''docker'' 11),
         \<lparr>files = Dir [(''proj'', Dir [(''README.md'', File ''hello''),
                                         (''src'', Dir [(''app.ts'', File ''ok'')])])],
            console = [[''templates'', ''src'', ''bad.mustache'']]\<rparr>)"
proof -
  let ?opts = "\<lparr>projectPath = [''proj''], config = defaultConfig, overwrite = None\<rparr>"
  let ?ctx = "templateContext ''2026'' defaultConfig"
  let ?items = "[(''README.md'', Leaf (Some ''hello'')),
             (''src'', Directory [(''app.ts.mustache'', Leaf (Some ''ok'')),
                                  (''bad.mustache'', Leaf (Some ''{{#docker}}'')),
                                  (''util.txt'', Leaf (Some ''never written''))]),
             (''later.txt'', Leaf (Some ''never written''))]"
  let ?before = "[ProcessFile [''templates'', ''README.md''] (Some ''hello'') [''proj''],
        MakeDir [''proj'', ''src''],
        ProcessFile [''templates'', ''src'', ''app.ts.mustache''] (Some ''ok'') [''proj'', ''src'']]"
  let ?s = "ProcessFile [''templates'', ''src'', ''bad.mustache''] (Some ''{{#docker}}'')
           [''proj'', ''src'']"
  let ?after = "[ProcessFile [''templates'', ''src'', ''util.txt''] (Some ''never written'')
            [''proj'', ''src''],
          ProcessFile [''templates'', ''later.txt''] (Some ''never written'') [''proj'']]"
  let ?w1 = "\<lparr>files = Dir [(''proj'', Dir [(''README.md'', File ''hello''),
                                         (''src'', Dir [(''app.ts'', File ''ok'')])])],
            console = []\<rparr>"
  have prep: "generateProject expand (Directory []) [''templates''] ''2026'' ?opts
       \<lparr>files = Dir [], console = []\<rparr>
     = Inr \<lparr>files = Dir [(''proj'', Dir [])], console = []\<rparr>"
    by (simp add: generateProject_def pathExists_def)
  have split: "steps ?items [''templates''] (projectPath ?opts) = ?before @ ?s # ?after"
    by (simp add: join_def)
  have ok: "expand ''ok'' ?ctx = Inr ''ok''"
    by (simp add: expand_def parseMarker_def startsWith_def)
  have typescript: "truthy (?ctx ''typescript'')"
    by (simp add: templateContext_def configEntries_def defaultConfig_def)
  have name: "targetFileName ?ctx ''app.ts.mustache'' = ''app.ts''"
    using typescript
    by (simp add: targetFileName_def endsWith_def startsWith_def replaceSuffix_def
        replacePrefix_def)
  have "runSteps expand ?ctx ?before \<lparr>files = Dir [(''proj'', Dir [])], console = []\<rparr>
       = Inr ?w1"
    by (simp add: processTemplateFile_def Let_def join_def basename_def endsWith_def
        copyFile_def ok name targetFileName_plain startsWith_def)
  then have before: "runSteps expand (templateContext ''2026'' (config ?opts)) ?before
       \<lparr>files = Dir [(''proj'', Dir [])], console = []\<rparr> = Inr ?w1"
    by simp
  have bad: "expand ''{{#docker}}'' ?ctx = Inl (UnclosedSection ''docker'' 11)"
    by (simp add: expand_def parseMarker_def closeMarker_def readFlag_def startsWith_def
        isSpace_def isIdentChar_def isUpperChar_def isLowerChar_def isDigitChar_def)
  have "runStep expand ?ctx ?s ?w1
       = Inl (RenderError (UnclosedSection ''docker'' 11),
           ?w1\<lparr>console := [[''templates'', ''src'', ''bad.mustache'']]\<rparr>)"
    by (simp add: processTemplateFile_def basename_def endsWith_def bad)
  then have fail: "runStep expand (templateContext ''2026'' (config ?opts)) ?s ?w1
       = Inl (RenderError (UnclosedSection ''docker'' 11),
           ?w1\<lparr>console := [[''templates'', ''src'', ''bad.mustache'']]\<rparr>)"
    by simp
  from abort_on_failure [OF prep split before fail] prep split
  show ?thesis by simp
qed

text \<open>
  The claim C7 as written also says that no half-populated target directory is left
  behind. The run below fails at the second template of a subdirectory; the target
  directory stays, with the files written before the failure in it.
\<close>

theorem abort_leaves_partial_target:
  "generateProject expand
       (Directory [(''README.md'', Leaf (Some ''hello'')),
                   (''src'', Directory [(''app.ts.mustache'', Leaf (Some ''ok'')),
                                        (''bad.mustache'', Leaf (Some ''{{#docker}}''))])])
       [''templates''] ''2026''
       \<lparr>projectPath = [''proj''], config = defaultConfig, overwrite = None\<rparr>
       \<lparr>files = Dir [], console = []\<rparr>
     = Inl (RenderError (UnclosedSection ''docker'' 11),
         \<lparr>files = Dir [(''proj'', Dir [(''README.md'', File ''hello''),
                                         (''src'', Dir [(''app.ts'', File ''ok'')])])],
            console = [[''templates'', ''src'', ''bad.mustache'']]\<rparr>)"
proof -
  let ?ctx = "templateContext ''2026'' defaultConfig"
  have ok: "expand ''ok'' ?ctx = Inr ''ok''"
    by (simp add: expand_def parseMarker_def startsWith_def)
  have typescript: "truthy (?ctx ''typescript'')"
    by (simp add: templateContext_def configEntries_def defaultConfig_def)
  have name: "targetFileName ?ctx ''app.ts.mustache'' = ''app.ts''"
    using typescript
    by (simp add: targetFileName_def endsWith_def startsWith_def replaceSuffix_def
        replacePrefix_def)
  have bad: "expand ''{{#docker}}'' ?ctx = Inl (UnclosedSection ''docker'' 11)"
    by (simp add: expand_def parseMarker_def closeMarker_def readFlag_def startsWith_def
        isSpace_def isIdentChar_def isUpperChar_def isLowerChar_def isDigitChar_def)
  show ?thesis
    by (simp add: generateProject_def pathExists_def processTemplateFile_def Let_def join_def
        basename_def endsWith_def copyFile_def ok bad name targetFileName_plain startsWith_def)
qed

section \<open>Expansion of templates\<close>

lemma ident_not_space: "isIdentChar c \<Longrightarrow> \<not> isSpace c"
  by (auto simp: isIdentChar_def isSpace_def isUpperChar_def isLowerChar_def isDigitChar_def)


lemma readFlag_flag:
  assumes "isFlag f"
  shows "readFlag (f @ CHR ''}'' # rest) = Some (f, CHR ''}'' # rest)"
proof -
  from assms obtain c cs where f: "f = c # cs" and c: "isIdentChar c"
    and all: "\<forall>x\<in>set f. isIdentChar x"
    by (cases f) (auto simp: isFlag_def list_all_iff)
  have brace: "\<not> isIdentChar (CHR ''}'')" "\<not> isSpace (CHR ''}'')"
    by (simp_all add: isIdentChar_def isUpperChar_def isLowerChar_def isDigitChar_def
        isSpace_def)
  have d1: "dropWhile isSpace (f @ CHR ''}'' # rest) = f @ CHR ''}'' # rest"
    using f c by (simp add: ident_not_space)
  have t: "takeWhile isIdentChar (f @ CHR ''}'' # rest) = f"
    using all brace by (simp add: takeWhile_append2)
  have d2: "dropWhile isIdentChar (f @ CHR ''}'' # rest) = CHR ''}'' # rest"
    using all brace by (simp add: dropWhile_append2)
  show ?thesis
    unfolding readFlag_def Let_def d1 t d2 using f brace by simp
qed

lemma parseMarker_open:
  "isFlag f \<Longrightarrow>
   parseMarker (CHR ''{'' # CHR ''{'' # CHR ''#'' # f @ CHR ''}'' # CHR ''}'' # rest) =
     Some (Open f, rest)"
  by (simp add: parseMarker_def closeMarker_def startsWith_def readFlag_flag)

lemma parseMarker_nopen:
  "isFlag f \<Longrightarrow>
   parseMarker (CHR ''{'' # CHR ''{'' # CHR ''^'' # f @ CHR ''}'' # CHR ''}'' # rest) =
     Some (NOpen f, rest)"
  by (simp add: parseMarker_def closeMarker_def startsWith_def readFlag_flag)

lemma parseMarker_close:
  "isFlag f \<Longrightarrow>
   parseMarker (CHR ''{'' # CHR ''{'' # CHR ''/'' # f @ CHR ''}'' # CHR ''}'' # rest) =
     Some (Close f, rest)"
  by (simp add: parseMarker_def closeMarker_def startsWith_def readFlag_flag)



lemma parseMarker_text: "c \<noteq> CHR ''{'' \<Longrightarrow> parseMarker (c # cs) = None"
  by (simp add: parseMarker_def startsWith_def)

lemma scan_literal:
  "isLiteral a \<Longrightarrow> scan text ctx stack buf (a @ rest) = scan text ctx stack (buf @ a) rest"
proof (induction a arbitrary: buf)
  case Nil
  then show ?case by simp
next
  case (Cons c a)
  then have "c \<noteq> CHR ''{''" and "isLiteral a" by (simp_all add: isLiteral_def)
  with Cons.IH [of "buf @ [c]"] show ?case
    by (simp add: parseMarker_text)
qed

lemma scan_open:
  "isFlag f \<Longrightarrow>
   scan text ctx stack buf (CHR ''{'' # CHR ''{'' # CHR ''#'' # f @ CHR ''}'' # CHR ''}'' # rest) =
     scan text ctx
       (Frame f False
          (length text - length (CHR ''{'' # CHR ''{'' # CHR ''#'' # f @ CHR ''}'' # CHR ''}'' # rest))
          buf # stack) [] rest"
  by (simp add: parseMarker_open)

lemma scan_nopen:
  "isFlag f \<Longrightarrow>
   scan text ctx stack buf (CHR ''{'' # CHR ''{'' # CHR ''^'' # f @ CHR ''}'' # CHR ''}'' # rest) =
     scan text ctx
       (Frame f True
          (length text - length (CHR ''{'' # CHR ''{'' # CHR ''^'' # f @ CHR ''}'' # CHR ''}'' # rest))
          buf # stack) [] rest"
  by (simp add: parseMarker_nopen)

lemma scan_close:
  "isFlag f \<Longrightarrow>
   scan text ctx (Frame f neg off saved # stack) buf
     (CHR ''{'' # CHR ''{'' # CHR ''/'' # f @ CHR ''}'' # CHR ''}'' # rest) =
     scan text ctx stack (saved @ (if truthy (ctx f) \<noteq> neg then buf else [])) rest"
  by (simp add: parseMarker_close retained_def)

lemma scan_close_other:
  "isFlag f \<Longrightarrow> g \<noteq> f \<Longrightarrow>
   scan text ctx (Frame g neg off saved # stack) buf
     (CHR ''{'' # CHR ''{'' # CHR ''/'' # f @ CHR ''}'' # CHR ''}'' # rest) =
     Inl (UnclosedSection g
       (length text - length (CHR ''{'' # CHR ''{'' # CHR ''/'' # f @ CHR ''}'' # CHR ''}'' # rest)))"
  by (simp add: parseMarker_close)



text \<open>
  C1. For every flag \<open>f\<close>, all texts \<open>a\<close> and \<open>b\<close> in which no marker starts, and every
  context, the template \<open>{{#f}}a{{/f}}{{^f}}b{{/f}}\<close> expands to exactly \<open>a\<close> when the
  flag is truthy in the context and to exactly \<open>b\<close> when it is falsy or absent.
\<close>

theorem branch_exclusivity:
  assumes "isFlag f" and "isLiteral a" and "isLiteral b"
  shows "expand (''{{#'' @ f @ ''}}'' @ a @ ''{{/'' @ f @ ''}}{{^'' @ f @ ''}}'' @ b
                   @ ''{{/'' @ f @ ''}}'') ctx
         = Inr (if truthy (ctx f) then a else b)"
  using assms
  by (simp add: expand_def scan_open scan_nopen scan_close scan_literal del: scan.simps(2))

theorem branch_exclusivity_witness:
  "isFlag ''f'' \<and> isLiteral ''A'' \<and> isLiteral ''B''
   \<and> expand ''{{#f}}A{{/f}}{{^f}}B{{/f}}'' [''f'' \<mapsto> VBool True] = Inr ''A''
   \<and> expand ''{{#f}}A{{/f}}{{^f}}B{{/f}}'' [''f'' \<mapsto> VBool False] = Inr ''B''
   \<and> expand ''{{#f}}A{{/f}}{{^f}}B{{/f}}'' Map.empty = Inr ''B''"
  using branch_exclusivity [of "''f''" "''A''" "''B''" "[''f'' \<mapsto> VBool True]"]
    branch_exclusivity [of "''f''" "''A''" "''B''" "[''f'' \<mapsto> VBool False]"]
    branch_exclusivity [of "''f''" "''A''" "''B''" "Map.empty"]
  by (simp add: isFlag_def isLiteral_def isIdentChar_def isUpperChar_def isLowerChar_def
      isDigitChar_def)

text \<open>
  C2. The template \<open>{{#a}}X{{#b}}Y{{/b}}Z{{/a}}\<close> expands to \<open>XZ\<close> in every context
  where \<open>a\<close> is truthy and \<open>b\<close> is falsy, and to the empty text in every context where
  \<open>a\<close> is falsy, whatever \<open>b\<close> is. (Where both are truthy it expands to \<open>XYZ\<close>.)
\<close>

theorem nesting_correctness:
  "expand ''{{#a}}X{{#b}}Y{{/b}}Z{{/a}}'' ctx =
     Inr (if truthy (ctx ''a'') then (if truthy (ctx ''b'') then ''XYZ'' else ''XZ'') else [])"
  by (simp add: expand_def parseMarker_def closeMarker_def readFlag_def startsWith_def
      isSpace_def isIdentChar_def isUpperChar_def isLowerChar_def isDigitChar_def retained_def)

lemma scan_literal_end:
  "isLiteral a \<Longrightarrow> scan text ctx stack buf a = scan text ctx stack (buf @ a) []"
  using scan_literal [of a _ ctx stack buf "[]"] by simp







lemma expand_mismatched_close:
  assumes "isFlag a" and "isFlag b" and "a \<noteq> b" and "isLiteral pre" and "isLiteral x"
  shows "expand (pre @ ''{{#'' @ a @ ''}}'' @ x @ ''{{/'' @ b @ ''}}'' @ rest) ctx
           = Inl (UnclosedSection a (length pre + length a + length x + 5))"
  using assms
  by (simp add: expand_def scan_literal scan_open scan_close_other del: scan.simps(2))

lemma expand_unclosed:
  assumes "isFlag a" and "isLiteral pre" and "isLiteral x"
  shows "expand (pre @ ''{{#'' @ a @ ''}}'' @ x) ctx
           = Inl (UnclosedSection a (length pre + length a + length x + 5))"
  using assms
  by (simp add: expand_def scan_literal scan_open scan_literal_end del: scan.simps(2))

lemma processTemplateFile_rethrows:
  assumes "endsWith (basename sourceFile) ''.mustache''"
    and "render templateContent ctx = Inl e"
  shows "processTemplateFile render sourceFile (Some templateContent) targetDir ctx w
           = Inl (RenderError e, w\<lparr>console := console w @ [sourceFile]\<rparr>)"
  using assms by (simp add: processTemplateFile_def Let_def)

text \<open>
  C6, as the code has it. For a template leaf, whatever error the renderer raises on
  the text and the context is the error that \<open>processTemplateFile\<close> raises, unchanged;
  the path of the offending file is written to the error log and the file system is
  left as it was. With the expander, for all flags \<open>a\<close> and \<open>b\<close> that differ and all
  texts \<open>pre\<close> and \<open>x\<close> in which no marker starts: a template \<open>pre{{#a}}x{{/b}}...\<close>
  with a mismatched close marker raises the error \<open>Unclosed section\<close> that names the
  open flag \<open>a\<close> and the offset of the close marker, whatever follows; and a template
  \<open>pre{{#a}}x\<close> with a trailing unclosed marker raises the error of the same kind that
  names \<open>a\<close> and the offset of the end of the text. The error holds neither the flag of
  the close marker nor the file.
\<close>

theorem unmatched_tag_detection:
  assumes "endsWith (basename sourceFile) ''.mustache''"
    and "isFlag a" and "isFlag b" and "a \<noteq> b" and "isLiteral pre" and "isLiteral x"
  shows "(\<forall>e. render templateContent ctx = Inl e \<longrightarrow>
            processTemplateFile render sourceFile (Some templateContent) targetDir ctx w
              = Inl (RenderError e, w\<lparr>console := console w @ [sourceFile]\<rparr>))
       \<and> expand (pre @ ''{{#'' @ a @ ''}}'' @ x @ ''{{/'' @ b @ ''}}'' @ rest) ctx
           = Inl (UnclosedSection a (length pre + length a + length x + 5))
       \<and> expand (pre @ ''{{#'' @ a @ ''}}'' @ x) ctx
           = Inl (UnclosedSection a (length pre + length a + length x + 5))
       \<and> processTemplateFile expand sourceFile
             (Some (pre @ ''{{#'' @ a @ ''}}'' @ x @ ''{{/'' @ b @ ''}}'' @ rest)) targetDir ctx w
           = Inl (RenderError (UnclosedSection a (length pre + length a + length x + 5)),
               w\<lparr>console := console w @ [sourceFile]\<rparr>)
       \<and> processTemplateFile expand sourceFile
             (Some (pre @ ''{{#'' @ a @ ''}}'' @ x)) targetDir ctx w
           = Inl (RenderError (UnclosedSection a (length pre + length a + length x + 5)),
               w\<lparr>console := console w @ [sourceFile]\<rparr>)"
proof (intro conjI allI impI)
  fix e
  assume "render templateContent ctx = Inl e"
  with assms(1)
  show "processTemplateFile render sourceFile (Some templateContent) targetDir ctx w
              = Inl (RenderError e, w\<lparr>console := console w @ [sourceFile]\<rparr>)"
    by (rule processTemplateFile_rethrows)
next
  show m: "expand (pre @ ''{{#'' @ a @ ''}}'' @ x @ ''{{/'' @ b @ ''}}'' @ rest) ctx
           = Inl (UnclosedSection a (length pre + length a + length x + 5))"
    using assms(2-6) by (rule expand_mismatched_close)
  show u: "expand (pre @ ''{{#'' @ a @ ''}}'' @ x) ctx
           = Inl (UnclosedSection a (length pre + length a + length x + 5))"
    using assms(2,5,6) by (rule expand_unclosed)
  show "processTemplateFile expand sourceFile
             (Some (pre @ ''{{#'' @ a @ ''}}'' @ x @ ''{{/'' @ b @ ''}}'' @ rest)) targetDir ctx w
           = Inl (RenderError (UnclosedSection a (length pre + length a + length x + 5)),
               w\<lparr>console := console w @ [sourceFile]\<rparr>)"
    using assms(1) m by (rule processTemplateFile_rethrows)
  show "processTemplateFile expand sourceFile
             (Some (pre @ ''{{#'' @ a @ ''}}'' @ x)) targetDir ctx w
           = Inl (RenderError (UnclosedSection a (length pre + length a + length x + 5)),
               w\<lparr>console := console w @ [sourceFile]\<rparr>)"
    using assms(1) u by (rule processTemplateFile_rethrows)
qed

theorem unmatched_tag_detection_witness:
  "endsWith (basename [''templates'', ''app.ts.mustache'']) ''.mustache''
   \<and> isFlag ''a'' \<and> isFlag ''b'' \<and> ''a'' \<noteq> ''b'' \<and> isLiteral [] \<and> isLiteral ''X''
   \<and> processTemplateFile expand [''templates'', ''app.ts.mustache''] (Some ''{{#a}}X{{/b}}'')
       [''proj''] Map.empty \<lparr>files = Dir [(''proj'', Dir [])], console = []\<rparr>
     = Inl (RenderError (UnclosedSection ''a'' 7),
         \<lparr>files = Dir [(''proj'', Dir [])], console = [[''templates'', ''app.ts.mustache'']]\<rparr>)
   \<and> processTemplateFile expand [''templates'', ''app.ts.mustache''] (Some ''{{#a}}'')
       [''proj''] Map.empty \<lparr>files = Dir [(''proj'', Dir [])], console = []\<rparr>
     = Inl (RenderError (UnclosedSection ''a'' 6),
         \<lparr>files = Dir [(''proj'', Dir [])], console = [[''templates'', ''app.ts.mustache'']]\<rparr>)"
  using unmatched_tag_detection [of "[''templates'', ''app.ts.mustache'']" "''a''" "''b''" "[]"
      "''X''" expand "[]" Map.empty "[''proj'']"
      "\<lparr>files = Dir [(''proj'', Dir [])], console = []\<rparr>" "[]"]
    unmatched_tag_detection [of "[''templates'', ''app.ts.mustache'']" "''a''" "''b''" "[]"
      "[]" expand "[]" Map.empty "[''proj'']"
      "\<lparr>files = Dir [(''proj'', Dir [])], console = []\<rparr>" "[]"]
  by (simp add: basename_def endsWith_def isFlag_def isLiteral_def isIdentChar_def
      isUpperChar_def isLowerChar_def isDigitChar_def)

text \<open>
  The claim C6 as written says that the error names both flags and the offending file.
  Two different files, one closing with \<open>{{/b}}\<close> and one with \<open>{{/c}}\<close>, raise one and
  the same error, which holds the flag \<open>a\<close> and an offset; only the line in the error
  log tells the files apart.
\<close>

theorem syntax_error_names_open_flag_only:
  "processTemplateFile expand [''templates'', ''one.mustache''] (Some ''{{#a}}X{{/b}}'')
       [''proj''] Map.empty \<lparr>files = Dir [(''proj'', Dir [])], console = []\<rparr>
     = Inl (RenderError (UnclosedSection ''a'' 7),
         \<lparr>files = Dir [(''proj'', Dir [])], console = [[''templates'', ''one.mustache'']]\<rparr>)
   \<and> processTemplateFile expand [''templates'', ''two.mustache''] (Some ''{{#a}}X{{/c}}'')
       [''proj''] Map.empty \<lparr>files = Dir [(''proj'', Dir [])], console = []\<rparr>
     = Inl (RenderError (UnclosedSection ''a'' 7),
         \<lparr>files = Dir [(''proj'', Dir [])], console = [[''templates'', ''two.mustache'']]\<rparr>)"
proof -
  have b: "expand ''{{#a}}X{{/b}}'' Map.empty = Inl (UnclosedSection ''a'' 7)"
    by (simp add: expand_def parseMarker_def closeMarker_def readFlag_def startsWith_def
        isSpace_def isIdentChar_def isUpperChar_def isLowerChar_def isDigitChar_def)
  have c: "expand ''{{#a}}X{{/c}}'' Map.empty = Inl (UnclosedSection ''a'' 7)"
    by (simp add: expand_def parseMarker_def closeMarker_def readFlag_def startsWith_def
        isSpace_def isIdentChar_def isUpperChar_def isLowerChar_def isDigitChar_def)
  show ?thesis
    by (simp add: processTemplateFile_def basename_def endsWith_def b c)
qed

end
